theory Spec2Isabelle
  imports Complex_Main
begin

section \<open>Strings and the two user-agent patterns\<close>

text \<open>
  A JavaScript string is a sequence of UTF-16 code units; a code unit is modelled by its
  number. \<open>str\<close> turns an ASCII literal into such a sequence.
\<close>

type_synonym jsstring = "nat list"

definition str :: "string \<Rightarrow> jsstring" where
  "str s = map of_char s"

text \<open>
  The regular expressions of \<open>detectDeviceType\<close> carry the flag \<open>i\<close> and not the flag
  \<open>u\<close>. Their literal characters are ASCII letters and one space. Canonicalisation without
  \<open>u\<close> never maps a code unit of 128 or more to an ASCII one, so an input unit matches a
  pattern letter exactly when it is that letter in either case; \<open>canonicalize\<close> therefore
  upper-cases \<open>a\<close>..\<open>z\<close> and leaves every other unit alone.
\<close>

definition canonicalize :: "nat \<Rightarrow> nat" where
  "canonicalize c = (if 97 \<le> c \<and> c \<le> 122 then c - 32 else c)"

definition isWordChar :: "nat \<Rightarrow> bool" where
  "isWordChar c = ((97 \<le> c \<and> c \<le> 122) \<or> (65 \<le> c \<and> c \<le> 90) \<or> (48 \<le> c \<and> c \<le> 57) \<or> c = 95)"

definition isLineTerminator :: "nat \<Rightarrow> bool" where
  "isLineTerminator c = (c = 10 \<or> c = 13 \<or> c = 8232 \<or> c = 8233)"

text \<open>
  A position of the matcher in the input: the code unit just before it (if any) and the
  input that remains. The unit before is what \<open>\b\<close> looks at.
\<close>

type_synonym pos = "nat option \<times> nat list"

fun lit :: "nat list \<Rightarrow> pos \<Rightarrow> pos option" where
  "lit [] p = Some p"
| "lit (x # xs) (prev, []) = None"
| "lit (x # xs) (prev, c # cs) =
     (if canonicalize x = canonicalize c then lit xs (Some c, cs) else None)"

definition wordBoundary :: "pos \<Rightarrow> bool" where
  "wordBoundary p =
     (let a = (case fst p of None \<Rightarrow> False | Some c \<Rightarrow> isWordChar c);
          b = (case snd p of [] \<Rightarrow> False | c # cs \<Rightarrow> isWordChar c)
      in a \<noteq> b)"

text \<open>\<open>\bW\b\<close> at a position, for a literal word \<open>W\<close>.\<close>

definition boundedWord :: "nat list \<Rightarrow> pos \<Rightarrow> bool" where
  "boundedWord w p =
     (wordBoundary p \<and> (case lit w p of None \<Rightarrow> False | Some q \<Rightarrow> wordBoundary q))"

text \<open>
  \<open>.*\<close> followed by the rest \<open>k\<close> of the pattern: the dot takes any unit but a line
  terminator, and backtracking tries every length.
\<close>

fun dotStar :: "(pos \<Rightarrow> bool) \<Rightarrow> pos \<Rightarrow> bool" where
  "dotStar k (prev, []) = k (prev, [])"
| "dotStar k (prev, c # cs) =
     (k (prev, c # cs) \<or> (\<not> isLineTerminator c \<and> dotStar k (Some c, cs)))"

text \<open>\<open>RegExp.prototype.test\<close> without the flag \<open>g\<close>: a match may start at any index.\<close>

fun searchFrom :: "(pos \<Rightarrow> bool) \<Rightarrow> pos \<Rightarrow> bool" where
  "searchFrom m (prev, []) = m (prev, [])"
| "searchFrom m (prev, c # cs) = (m (prev, c # cs) \<or> searchFrom m (Some c, cs))"

definition regexTest :: "(pos \<Rightarrow> bool) \<Rightarrow> jsstring \<Rightarrow> bool" where
  "regexTest m s = searchFrom m (None, s)"

text \<open>\<open>/Android|webOS|iPhone|iPad|iPod|BlackBerry|IEMobile|Opera Mini/i\<close>\<close>

definition mobileWords :: "jsstring list" where
  "mobileWords = [str ''Android'', str ''webOS'', str ''iPhone'', str ''iPad'', str ''iPod'',
                  str ''BlackBerry'', str ''IEMobile'', str ''Opera Mini'']"

definition mobilePattern :: "pos \<Rightarrow> bool" where
  "mobilePattern p = list_ex (\<lambda>w. lit w p \<noteq> None) mobileWords"

text \<open>\<open>/iPad|Android(?=.*\bMobile\b)(?=.*\bSafari\b)/i\<close>\<close>

definition tabletPattern :: "pos \<Rightarrow> bool" where
  "tabletPattern p =
     (lit (str ''iPad'') p \<noteq> None \<or>
      (case lit (str ''Android'') p of
         None \<Rightarrow> False
       | Some q \<Rightarrow> dotStar (boundedWord (str ''Mobile'')) q \<and>
                   dotStar (boundedWord (str ''Safari'')) q))"

section \<open>Device detection\<close>

record DeviceType =
  isMobile :: bool
  isTablet :: bool
  isDesktop :: bool
  touchSupport :: bool

text \<open>
  \<open>detectDeviceType\<close>; the first argument is the value of \<open>'ontouchstart' in window\<close>.
\<close>

definition detectDeviceType :: "bool \<Rightarrow> jsstring \<Rightarrow> DeviceType" where
  "detectDeviceType ontouchstart userAgent =
     (let isMobile = regexTest mobilePattern userAgent;
          isTablet = regexTest tabletPattern userAgent;
          isDesktop = (\<not> isMobile \<and> \<not> isTablet)
      in \<lparr>isMobile = isMobile, isTablet = isTablet, isDesktop = isDesktop,
          touchSupport = ontouchstart\<rparr>)"

section \<open>Numbers\<close>

text \<open>
  A JavaScript number is an IEEE 754 double: NaN, an infinity, or a finite value. A finite
  double is the real \<open>m * 2 ^ (e - 52)\<close> for integers \<open>m\<close> and \<open>e\<close> with
  \<open>\<bar>m\<bar> < 2 ^ 53\<close> and \<open>-1022 \<le> e \<le> 1023\<close>; zero has no sign here. The platform hands over
  its integers (pixels, milliseconds) as doubles; they are below \<open>2 ^ 53\<close> in absolute
  value, so they and their differences are exact.
\<close>

datatype number = NaN | NegInfinity | Num real | PosInfinity

definition num_of_int :: "int \<Rightarrow> number" where
  "num_of_int i = Num (of_int i)"

text \<open>To the nearest integer, a tie to the even one.\<close>

definition round_half_even :: "real \<Rightarrow> int" where
  "round_half_even y =
     (let f = \<lfloor>y\<rfloor> in
        if y - of_int f < 1 / 2 then f
        else if 1 / 2 < y - of_int f then f + 1
        else if even f then f else f + 1)"

text \<open>
  The rounding of every arithmetic operation: the exact result goes to the nearest double,
  a tie to the one with the even significand. \<open>e\<close> is the exponent of the binade of \<open>x\<close>
  (the least one for a subnormal \<open>x\<close>), \<open>ulp\<close> the distance between neighbouring doubles
  there. A result of magnitude \<open>2 ^ 1024\<close> or more is an infinity.
\<close>

definition round_double :: "real \<Rightarrow> number" where
  "round_double x =
     (if x = 0 then Num 0
      else let e = max \<lfloor>log 2 \<bar>x\<bar>\<rfloor> (- 1022);
               ulp = 2 powr of_int (e - 52);
               r = of_int (round_half_even (\<bar>x\<bar> / ulp)) * ulp
           in if 2 powr 1024 \<le> r then (if 0 < x then PosInfinity else NegInfinity)
              else Num (if 0 < x then r else - r))"

text \<open>
  Division and multiplication: the special values follow IEEE (\<open>0 / 0\<close> is NaN, a non-zero
  value divided by zero is an infinity), a finite result is rounded. The divisors of this
  program come from a subtraction of integers, whose zero is \<open>+0\<close>.
\<close>

fun js_div :: "number \<Rightarrow> number \<Rightarrow> number" where
  "js_div (Num x) (Num y) =
     (if y = 0 then (if x = 0 then NaN else if 0 < x then PosInfinity else NegInfinity)
      else round_double (x / y))"
| "js_div (Num x) PosInfinity = Num 0"
| "js_div (Num x) NegInfinity = Num 0"
| "js_div PosInfinity (Num y) = (if 0 \<le> y then PosInfinity else NegInfinity)"
| "js_div NegInfinity (Num y) = (if 0 \<le> y then NegInfinity else PosInfinity)"
| "js_div a b = NaN"

fun js_mul :: "number \<Rightarrow> number \<Rightarrow> number" where
  "js_mul (Num x) (Num y) = round_double (x * y)"
| "js_mul (Num x) PosInfinity =
     (if x = 0 then NaN else if 0 < x then PosInfinity else NegInfinity)"
| "js_mul (Num x) NegInfinity =
     (if x = 0 then NaN else if 0 < x then NegInfinity else PosInfinity)"
| "js_mul PosInfinity (Num y) =
     (if y = 0 then NaN else if 0 < y then PosInfinity else NegInfinity)"
| "js_mul NegInfinity (Num y) =
     (if y = 0 then NaN else if 0 < y then NegInfinity else PosInfinity)"
| "js_mul PosInfinity PosInfinity = PosInfinity"
| "js_mul NegInfinity NegInfinity = PosInfinity"
| "js_mul PosInfinity NegInfinity = NegInfinity"
| "js_mul NegInfinity PosInfinity = NegInfinity"
| "js_mul a b = NaN"

text \<open>Truthiness: the empty string, zero and NaN are falsy.\<close>

definition truthy_str :: "jsstring \<Rightarrow> bool" where
  "truthy_str s = (s \<noteq> [])"

definition truthy_num :: "number \<Rightarrow> bool" where
  "truthy_num n = (n \<noteq> NaN \<and> n \<noteq> Num 0)"

text \<open>
  A value that may be \<open>undefined\<close> or \<open>null\<close> is an option; \<open>None\<close> stands for both, which
  \<open>||\<close>, \<open>??\<close> and the test of \<open>validateTrackingData\<close> treat alike.
  \<open>js_or\<close> is \<open>a || b\<close> for a given truthiness of the values of \<open>a\<close>, \<open>nullish\<close> is
  \<open>a ?? b\<close>.
\<close>

definition js_or :: "('a \<Rightarrow> bool) \<Rightarrow> 'a option \<Rightarrow> 'a option \<Rightarrow> 'a option" where
  "js_or truthy a b = (case a of None \<Rightarrow> b | Some v \<Rightarrow> if truthy v then Some v else b)"

definition nullish :: "'a option \<Rightarrow> 'a option \<Rightarrow> 'a option" where
  "nullish a b = (case a of None \<Rightarrow> b | Some v \<Rightarrow> Some v)"

section \<open>The browser\<close>

datatype js_error =
  TypeError | SyntaxError | SecurityError | QuotaExceededError | NetworkError | TimeoutError

text \<open>A promise that has settled.\<close>

datatype 'a settled = Fulfilled 'a | Rejected js_error

text \<open>
  What \<open>response.json()\<close> makes of the body of a response: it rejects on a body that is
  not JSON; \<open>JsonNull\<close> is the body \<open>null\<close>; \<open>JsonValue ip\<close> is any other JSON value, with
  what reading its property \<open>ip\<close> gives.
\<close>

datatype json_body = NotJson | JsonNull | JsonValue "jsstring option"

record response =
  response_status :: nat
  response_body :: json_body

definition response_ok :: "response \<Rightarrow> bool" where
  "response_ok r = (200 \<le> response_status r \<and> response_status r \<le> 299)"

record connection =
  connection_effectiveType :: "jsstring option"
  connection_type :: "jsstring option"
  connection_downlink :: "number option"
  connection_rtt :: "number option"

text \<open>\<open>Date.now()\<close> is read at four places of \<open>formatTrackingData\<close>; the clock may move between them.\<close>

datatype date_now_call = ForSessionStartTime | ForLastActivityTime | ForSessionId | ForTimestamp

text \<open>
  Everything the functions read from \<open>window\<close>, \<open>navigator\<close>, \<open>document\<close>, \<open>Intl\<close>,
  \<open>Date\<close>, \<open>Math\<close> and the network. \<open>navigator_connection\<close> is \<open>None\<close> when
  \<open>'connection' in navigator\<close> is false, \<open>performance_timing\<close> is \<open>None\<close> when
  \<open>window.performance && window.performance.timing\<close> is falsy and holds
  \<open>(loadEventEnd, navigationStart)\<close> otherwise. \<open>math_random_base36\<close> is the string
  \<open>Math.random().toString(36).substr(2, 9)\<close>. \<open>fetch_ipify\<close> is how the request to
  \<open>https://api.ipify.org?format=json\<close> settles.
\<close>

record browser =
  navigator_userAgent :: jsstring
  navigator_language :: jsstring
  navigator_platform :: jsstring
  navigator_cookieEnabled :: bool
  navigator_doNotTrack :: "jsstring option"
  navigator_connection :: "connection option"
  screen_width :: int
  screen_height :: int
  screen_colorDepth :: int
  window_innerWidth :: int
  window_innerHeight :: int
  window_devicePixelRatio :: real
  window_ontouchstart :: bool
  window_pageYOffset :: real
  documentElement_scrollTop :: real
  documentElement_scrollHeight :: int
  intl_timeZone :: jsstring
  date_now :: "date_now_call \<Rightarrow> int"
  math_random_base36 :: jsstring
  document_referrer :: jsstring
  location_href :: jsstring
  performance_timing :: "(int \<times> int) option"
  fetch_ipify :: "response settled"

section \<open>Tracking data\<close>

text \<open>
  \<open>UserTrackingData\<close> is declared in the hook module; its fields are those that
  \<open>formatTrackingData\<close> writes. A field of a \<open>Partial<UserTrackingData>\<close>, and of a value
  handed to \<open>validateTrackingData\<close>, may be missing, so every field is an option.
\<close>

record UserTrackingData =
  userAgent :: "jsstring option"
  language :: "jsstring option"
  platform :: "jsstring option"
  cookieEnabled :: "bool option"
  doNotTrack :: "jsstring option"
  screenWidth :: "number option"
  screenHeight :: "number option"
  viewportWidth :: "number option"
  viewportHeight :: "number option"
  colorDepth :: "number option"
  pixelRatio :: "number option"
  connectionType :: "jsstring option"
  effectiveType :: "jsstring option"
  downlink :: "number option"
  rtt :: "number option"
  ipAddress :: "jsstring option"
  timezone :: "jsstring option"
  sessionStartTime :: "number option"
  totalActiveTime :: "number option"
  lastActivityTime :: "number option"
  pageViews :: "number option"
  clicks :: "number option"
  scrollDepth :: "number option"
  mouseMovements :: "number option"
  referrer :: "jsstring option"
  currentUrl :: "jsstring option"
  pageLoadTime :: "number option"
  isMobile :: "bool option"
  isTablet :: "bool option"
  isDesktop :: "bool option"
  touchSupport :: "bool option"
  sessionId :: "jsstring option"
  timestamp :: "number option"

text \<open>The object \<open>{}\<close>.\<close>

definition no_overrides :: UserTrackingData where
  "no_overrides =
     \<lparr>userAgent = None, language = None, platform = None, cookieEnabled = None,
      doNotTrack = None, screenWidth = None, screenHeight = None, viewportWidth = None,
      viewportHeight = None, colorDepth = None, pixelRatio = None, connectionType = None,
      effectiveType = None, downlink = None, rtt = None, ipAddress = None, timezone = None,
      sessionStartTime = None, totalActiveTime = None, lastActivityTime = None,
      pageViews = None, clicks = None, scrollDepth = None, mouseMovements = None,
      referrer = None, currentUrl = None, pageLoadTime = None, isMobile = None,
      isTablet = None, isDesktop = None, touchSupport = None, sessionId = None,
      timestamp = None\<rparr>"

datatype event_type = Focus | Blur | Scroll | Click | Mousemove | Page_view | Session_end

text \<open>
  An event as \<open>createEvent\<close> makes it; its timestamp is an option because it may read
  back as \<open>null\<close> from the local store.
\<close>

record TrackingEvent =
  event_type :: event_type
  event_data :: UserTrackingData
  event_timestamp :: "number option"

section \<open>TrackingUtils\<close>

text \<open>The decimal digits of a natural number, as code units.\<close>

fun digits :: "nat \<Rightarrow> jsstring" where
  "digits n = (if n < 10 then [48 + n] else digits (n div 10) @ [48 + n mod 10])"

declare digits.simps [simp del]

text \<open>The string that a template literal makes of an integer-valued number.\<close>

definition string_of_int :: "int \<Rightarrow> jsstring" where
  "string_of_int i = (if i < 0 then 45 # digits (nat (- i)) else digits (nat i))"

text \<open>
  \<open>generateSessionId\<close>, from the two values it reads: \<open>Date.now()\<close> and
  \<open>Math.random().toString(36).substr(2, 9)\<close>.
\<close>

definition generateSessionId :: "int \<Rightarrow> jsstring \<Rightarrow> jsstring" where
  "generateSessionId now random_base36 = string_of_int now @ str ''-'' @ random_base36"

record ConnectionInfo =
  info_connectionType :: "jsstring option"
  info_effectiveType :: "jsstring option"
  info_downlink :: "number option"
  info_rtt :: "number option"

definition getConnectionInfo :: "browser \<Rightarrow> ConnectionInfo" where
  "getConnectionInfo env =
     (case navigator_connection env of
        Some connection \<Rightarrow>
          \<lparr>info_connectionType =
             js_or truthy_str (connection_effectiveType connection) (connection_type connection),
           info_effectiveType = connection_effectiveType connection,
           info_downlink = connection_downlink connection,
           info_rtt = connection_rtt connection\<rparr>
      | None \<Rightarrow>
          \<lparr>info_connectionType = None, info_effectiveType = None, info_downlink = None,
           info_rtt = None\<rparr>)"

text \<open>
  \<open>getIPAddress\<close>. The body of the \<open>try\<close> first: the request may reject, \<open>json()\<close> may
  reject, and reading \<open>ip\<close> of \<open>null\<close> throws. The \<open>catch\<close> turns each of them into
  \<open>undefined\<close>.
\<close>

definition getIPAddress_try :: "browser \<Rightarrow> js_error + jsstring option" where
  "getIPAddress_try env =
     (case fetch_ipify env of
        Rejected e \<Rightarrow> Inl e
      | Fulfilled response \<Rightarrow>
          (case response_body response of
             NotJson \<Rightarrow> Inl SyntaxError
           | JsonNull \<Rightarrow> Inl TypeError
           | JsonValue ip \<Rightarrow> Inr ip))"

definition getIPAddress :: "browser \<Rightarrow> jsstring option settled" where
  "getIPAddress env =
     (case getIPAddress_try env of Inr ip \<Rightarrow> Fulfilled ip | Inl error \<Rightarrow> Fulfilled None)"

definition getPageLoadTime :: "browser \<Rightarrow> number option" where
  "getPageLoadTime env =
     (case performance_timing env of
        Some (loadEventEnd, navigationStart) \<Rightarrow> Some (num_of_int (loadEventEnd - navigationStart))
      | None \<Rightarrow> None)"

definition calculateScrollDepth :: "browser \<Rightarrow> number" where
  "calculateScrollDepth env =
     (let scrollTop = (if window_pageYOffset env \<noteq> 0 then window_pageYOffset env
                       else documentElement_scrollTop env);
          docHeight = documentElement_scrollHeight env - window_innerHeight env
      in js_mul (js_div (Num scrollTop) (num_of_int docHeight)) (Num 100))"

definition formatTrackingData :: "browser \<Rightarrow> UserTrackingData \<Rightarrow> UserTrackingData" where
  "formatTrackingData env data =
     \<lparr>userAgent = js_or truthy_str (userAgent data) (Some (navigator_userAgent env)),
      language = js_or truthy_str (language data) (Some (navigator_language env)),
      platform = js_or truthy_str (platform data) (Some (navigator_platform env)),
      cookieEnabled = nullish (cookieEnabled data) (Some (navigator_cookieEnabled env)),
      doNotTrack = nullish (doNotTrack data) (navigator_doNotTrack env),
      screenWidth = js_or truthy_num (screenWidth data) (Some (num_of_int (screen_width env))),
      screenHeight = js_or truthy_num (screenHeight data) (Some (num_of_int (screen_height env))),
      viewportWidth =
        js_or truthy_num (viewportWidth data) (Some (num_of_int (window_innerWidth env))),
      viewportHeight =
        js_or truthy_num (viewportHeight data) (Some (num_of_int (window_innerHeight env))),
      colorDepth = js_or truthy_num (colorDepth data) (Some (num_of_int (screen_colorDepth env))),
      pixelRatio = js_or truthy_num (pixelRatio data) (Some (Num (window_devicePixelRatio env))),
      connectionType = info_connectionType (getConnectionInfo env),
      effectiveType = info_effectiveType (getConnectionInfo env),
      downlink = info_downlink (getConnectionInfo env),
      rtt = info_rtt (getConnectionInfo env),
      ipAddress = ipAddress data,
      timezone = js_or truthy_str (timezone data) (Some (intl_timeZone env)),
      sessionStartTime =
        js_or truthy_num (sessionStartTime data)
          (Some (num_of_int (date_now env ForSessionStartTime))),
      totalActiveTime = js_or truthy_num (totalActiveTime data) (Some (Num 0)),
      lastActivityTime =
        js_or truthy_num (lastActivityTime data)
          (Some (num_of_int (date_now env ForLastActivityTime))),
      pageViews = js_or truthy_num (pageViews data) (Some (Num 1)),
      clicks = js_or truthy_num (clicks data) (Some (Num 0)),
      scrollDepth = js_or truthy_num (scrollDepth data) (Some (Num 0)),
      mouseMovements = js_or truthy_num (mouseMovements data) (Some (Num 0)),
      referrer = js_or truthy_str (referrer data) (Some (document_referrer env)),
      currentUrl = js_or truthy_str (currentUrl data) (Some (location_href env)),
      pageLoadTime = js_or truthy_num (pageLoadTime data) (getPageLoadTime env),
      isMobile =
        nullish (isMobile data)
          (Some (DeviceType.isMobile
                   (detectDeviceType (window_ontouchstart env) (navigator_userAgent env)))),
      isTablet =
        nullish (isTablet data)
          (Some (DeviceType.isTablet
                   (detectDeviceType (window_ontouchstart env) (navigator_userAgent env)))),
      isDesktop =
        nullish (isDesktop data)
          (Some (DeviceType.isDesktop
                   (detectDeviceType (window_ontouchstart env) (navigator_userAgent env)))),
      touchSupport = nullish (touchSupport data) (Some (window_ontouchstart env)),
      sessionId =
        js_or truthy_str (sessionId data)
          (Some (generateSessionId (date_now env ForSessionId) (math_random_base36 env))),
      timestamp =
        js_or truthy_num (timestamp data) (Some (num_of_int (date_now env ForTimestamp)))\<rparr>"

text \<open>
  \<open>validateTrackingData\<close>: each required field, as the test that it is neither
  \<open>undefined\<close> nor \<open>null\<close>.
\<close>

definition requiredFields :: "(UserTrackingData \<Rightarrow> bool) list" where
  "requiredFields =
     [\<lambda>data. userAgent data \<noteq> None, \<lambda>data. sessionId data \<noteq> None,
      \<lambda>data. timestamp data \<noteq> None, \<lambda>data. currentUrl data \<noteq> None]"

definition validateTrackingData :: "UserTrackingData \<Rightarrow> bool" where
  "validateTrackingData data = list_all (\<lambda>field. field data) requiredFields"

section \<open>The local store\<close>

text \<open>
  A completed call either returns (\<open>Inr\<close>) or throws (\<open>Inl\<close>); \<open>try_catch\<close> is
  \<open>try { body } catch (error) { handler }\<close>.
\<close>

definition try_catch :: "js_error + 'a \<Rightarrow> (js_error \<Rightarrow> js_error + 'a) \<Rightarrow> js_error + 'a" where
  "try_catch body handler = (case body of Inr v \<Rightarrow> Inr v | Inl error \<Rightarrow> handler error)"

record StoredRecord =
  stored_trackingData :: UserTrackingData
  stored_events :: "TrackingEvent list"
  stored_timestamp :: "number option"

text \<open>
  What \<open>JSON.parse\<close> reads back from the text that \<open>JSON.stringify\<close> writes: a number that
  is NaN or infinite is written as \<open>null\<close>, a property that is \<open>undefined\<close> is left out;
  strings, booleans and finite numbers come back as they were.
\<close>

definition json_number :: "number option \<Rightarrow> number option" where
  "json_number n = (case n of Some (Num x) \<Rightarrow> Some (Num x) | _ \<Rightarrow> None)"

definition json_data :: "UserTrackingData \<Rightarrow> UserTrackingData" where
  "json_data data =
     data\<lparr>screenWidth := json_number (screenWidth data),
          screenHeight := json_number (screenHeight data),
          viewportWidth := json_number (viewportWidth data),
          viewportHeight := json_number (viewportHeight data),
          colorDepth := json_number (colorDepth data),
          pixelRatio := json_number (pixelRatio data),
          downlink := json_number (downlink data),
          rtt := json_number (rtt data),
          sessionStartTime := json_number (sessionStartTime data),
          totalActiveTime := json_number (totalActiveTime data),
          lastActivityTime := json_number (lastActivityTime data),
          pageViews := json_number (pageViews data),
          clicks := json_number (clicks data),
          scrollDepth := json_number (scrollDepth data),
          mouseMovements := json_number (mouseMovements data),
          pageLoadTime := json_number (pageLoadTime data),
          timestamp := json_number (timestamp data)\<rparr>"

definition json_event :: "TrackingEvent \<Rightarrow> TrackingEvent" where
  "json_event event =
     event\<lparr>event_data := json_data (event_data event),
           event_timestamp := json_number (event_timestamp event)\<rparr>"

definition json_record :: "StoredRecord \<Rightarrow> StoredRecord" where
  "json_record entry =
     \<lparr>stored_trackingData = json_data (stored_trackingData entry),
      stored_events = map json_event (stored_events entry),
      stored_timestamp = json_number (stored_timestamp entry)\<rparr>"

text \<open>
  The text kept under the key \<open>trackingData\<close>, by what \<open>JSON.parse\<close> makes of it: the
  empty string, a text that is not JSON, the JSON of a value that is not an array, or the
  JSON of an array (of records, as this program writes them); \<open>JsonArrayText records\<close>
  is the text that parses to \<open>records\<close>.
\<close>

datatype stored_text = EmptyText | NotJsonText | JsonOtherText | JsonArrayText "StoredRecord list"

datatype parsed = ParsedOther | ParsedArray "StoredRecord list"

text \<open>
  \<open>localStorage\<close>: when it is not accessible every call on it throws; \<open>storage_accepts\<close>
  tells whether \<open>setItem\<close> has room for the JSON of a list of records;
  \<open>storage_item\<close> is the value under the key, \<open>None\<close> when \<open>getItem\<close> gives \<open>null\<close>.
\<close>

record localStorage =
  storage_accessible :: bool
  storage_accepts :: "StoredRecord list \<Rightarrow> bool"
  storage_item :: "stored_text option"

definition getItem :: "localStorage \<Rightarrow> js_error + stored_text option" where
  "getItem storage =
     (if storage_accessible storage then Inr (storage_item storage) else Inl SecurityError)"

text \<open>\<open>JSON.stringify\<close> of an array of records, as the text it is.\<close>

definition JSON_stringify :: "StoredRecord list \<Rightarrow> stored_text" where
  "JSON_stringify records = JsonArrayText (map json_record records)"

text \<open>\<open>localStorage.setItem('trackingData', JSON.stringify(records))\<close>\<close>

definition setItem :: "localStorage \<Rightarrow> StoredRecord list \<Rightarrow> js_error + localStorage" where
  "setItem storage records =
     (if \<not> storage_accessible storage then Inl SecurityError
      else if storage_accepts storage records
        then Inr (storage\<lparr>storage_item := Some (JSON_stringify records)\<rparr>)
      else Inl QuotaExceededError)"

definition removeItem :: "localStorage \<Rightarrow> js_error + localStorage" where
  "removeItem storage =
     (if storage_accessible storage then Inr (storage\<lparr>storage_item := None\<rparr>)
      else Inl SecurityError)"

definition JSON_parse :: "stored_text \<Rightarrow> js_error + parsed" where
  "JSON_parse text =
     (case text of
        EmptyText \<Rightarrow> Inl SyntaxError
      | NotJsonText \<Rightarrow> Inl SyntaxError
      | JsonOtherText \<Rightarrow> Inr ParsedOther
      | JsonArrayText records \<Rightarrow> Inr (ParsedArray records))"

text \<open>\<open>existingData ? JSON.parse(existingData) : []\<close>: \<open>null\<close> and the empty string are falsy.\<close>

definition parse_or_empty :: "stored_text option \<Rightarrow> js_error + parsed" where
  "parse_or_empty existingData =
     (case existingData of
        None \<Rightarrow> Inr (ParsedArray [])
      | Some text \<Rightarrow> if text = EmptyText then Inr (ParsedArray []) else JSON_parse text)"

text \<open>\<open>data.push(x)\<close>: a parsed JSON value that is not an array has no method \<open>push\<close>.\<close>

definition push :: "parsed \<Rightarrow> StoredRecord \<Rightarrow> js_error + StoredRecord list" where
  "push data x = (case data of ParsedArray records \<Rightarrow> Inr (records @ [x]) | ParsedOther \<Rightarrow> Inl TypeError)"

definition saveToLocalStorage_try ::
  "localStorage \<Rightarrow> int \<Rightarrow> UserTrackingData \<Rightarrow> TrackingEvent list \<Rightarrow> js_error + localStorage" where
  "saveToLocalStorage_try storage now trackingData events =
     (case getItem storage of
        Inl error \<Rightarrow> Inl error
      | Inr existingData \<Rightarrow>
          (case parse_or_empty existingData of
             Inl error \<Rightarrow> Inl error
           | Inr data \<Rightarrow>
               (case push data \<lparr>stored_trackingData = trackingData, stored_events = events,
                                 stored_timestamp = Some (num_of_int now)\<rparr> of
                  Inl error \<Rightarrow> Inl error
                | Inr data' \<Rightarrow> setItem storage data')))"

text \<open>
  \<open>saveToLocalStorage\<close>, with the value of \<open>Date.now()\<close>: how the call completes, and the
  store after it.
\<close>

definition saveToLocalStorage ::
  "localStorage \<Rightarrow> int \<Rightarrow> UserTrackingData \<Rightarrow> TrackingEvent list
     \<Rightarrow> (js_error + bool) \<times> localStorage" where
  "saveToLocalStorage storage now trackingData events =
     (case saveToLocalStorage_try storage now trackingData events of
        Inr storage' \<Rightarrow> (Inr True, storage')
      | Inl error \<Rightarrow> (try_catch (Inl error) (\<lambda>error. Inr False), storage))"

definition getFromLocalStorage :: "localStorage \<Rightarrow> js_error + parsed" where
  "getFromLocalStorage storage =
     try_catch
       (case getItem storage of Inl error \<Rightarrow> Inl error | Inr data \<Rightarrow> parse_or_empty data)
       (\<lambda>error. Inr (ParsedArray []))"

definition clearLocalStorage :: "localStorage \<Rightarrow> (js_error + bool) \<times> localStorage" where
  "clearLocalStorage storage =
     (case removeItem storage of
        Inr storage' \<Rightarrow> (Inr True, storage')
      | Inl error \<Rightarrow> (try_catch (Inl error) (\<lambda>error. Inr False), storage))"

text \<open>Calls of \<open>saveToLocalStorage\<close> one after the other, each with its own arguments.\<close>

fun saveAll ::
  "localStorage \<Rightarrow> (int \<times> UserTrackingData \<times> TrackingEvent list) list \<Rightarrow> localStorage" where
  "saveAll storage [] = storage"
| "saveAll storage ((now, trackingData, events) # calls) =
     saveAll (snd (saveToLocalStorage storage now trackingData events)) calls"

section \<open>Delivery\<close>

record Payload =
  payload_trackingData :: UserTrackingData
  payload_events :: "TrackingEvent list"

record EndpointResult =
  endpoint :: jsstring
  success :: bool
  response :: "response option"

text \<open>\<open>promise.catch(error => null)\<close>: a promise that never rejects.\<close>

definition catch_null :: "'a settled \<Rightarrow> 'a option settled" where
  "catch_null promise =
     (case promise of Fulfilled value \<Rightarrow> Fulfilled (Some value) | Rejected error \<Rightarrow> Fulfilled None)"

text \<open>
  \<open>sendToMultipleEndpoints\<close>. \<open>fetch i url payload\<close> is how the \<open>i\<close>-th request, a POST
  of the payload to \<open>url\<close>, settles: it fulfils with the response whatever its status,
  and rejects when no response arrives. The payload is plain data, which
  \<open>JSON.stringify\<close> takes without throwing. \<open>Promise.allSettled\<close> hands over the
  settled promises in their order.
\<close>

definition sendToMultipleEndpoints ::
  "(nat \<Rightarrow> jsstring \<Rightarrow> Payload \<Rightarrow> response settled) \<Rightarrow> Payload \<Rightarrow> jsstring list
     \<Rightarrow> EndpointResult list settled" where
  "sendToMultipleEndpoints fetch data endpoints =
     (let promises = map (\<lambda>(index, endpoint). catch_null (fetch index endpoint data))
                         (enumerate 0 endpoints);
          results = promises
      in Fulfilled
           (map (\<lambda>(index, result).
                   \<lparr>endpoint = endpoints ! index,
                    success = (case result of Fulfilled value \<Rightarrow> value \<noteq> None
                                            | Rejected error \<Rightarrow> False),
                    response = (case result of Fulfilled value \<Rightarrow> value
                                             | Rejected error \<Rightarrow> None)\<rparr>)
                (enumerate 0 results)))"

section \<open>Configuration\<close>

record TrackingConfig =
  autoSendInterval :: nat
  endpoints :: "jsstring list"
  trackClicks :: bool
  trackScroll :: bool
  trackMouseMovements :: bool
  trackFocus :: bool
  scrollThrottle :: nat
  mouseThrottle :: nat
  enableLocalStorage :: bool
  maxLocalStorageItems :: nat

definition DEFAULT_TRACKING_CONFIG :: TrackingConfig where
  "DEFAULT_TRACKING_CONFIG =
     \<lparr>autoSendInterval = 30000, endpoints = [str ''/api/tracking''], trackClicks = True,
      trackScroll = True, trackMouseMovements = True, trackFocus = True,
      scrollThrottle = 100, mouseThrottle = 1000, enableLocalStorage = True,
      maxLocalStorageItems = 50\<rparr>"

section \<open>Inputs of the examples\<close>

definition android_phone_ua :: jsstring where
  "android_phone_ua = str ''Mozilla/5.0 (Linux; Android 10) Mobile Safari/537.36''"

definition ipad_ua :: jsstring where
  "ipad_ua = str ''Mozilla/5.0 (iPad; CPU OS 13_2 like Mac OS X)''"

text \<open>
  A desktop browser showing a page that is exactly as tall as its window; the lookup of the
  address fails.
\<close>

definition desktop_browser :: browser where
  "desktop_browser =
     \<lparr>navigator_userAgent = str ''Mozilla/5.0 (Windows NT 10.0; Win64; x64)'',
      navigator_language = str ''en-US'',
      navigator_platform = str ''Win32'',
      navigator_cookieEnabled = True,
      navigator_doNotTrack = None,
      navigator_connection =
        Some \<lparr>connection_effectiveType = Some (str ''4g''), connection_type = None,
              connection_downlink = Some (Num 10), connection_rtt = Some (Num 50)\<rparr>,
      screen_width = 1920, screen_height = 1080, screen_colorDepth = 24,
      window_innerWidth = 1280, window_innerHeight = 800, window_devicePixelRatio = 1,
      window_ontouchstart = False, window_pageYOffset = 0, documentElement_scrollTop = 0,
      documentElement_scrollHeight = 800,
      intl_timeZone = str ''Europe/Madrid'',
      date_now = (\<lambda>call. 1730000000000),
      math_random_base36 = str ''k3j2h1g9f'',
      document_referrer = str ''https://www.google.com/'',
      location_href = str ''https://landing.example/'',
      performance_timing = Some (1730000000000, 1729999999000),
      fetch_ipify = Rejected NetworkError\<rparr>"


text \<open>
  A page of height 1312 in a window of height 800 with a horizontal scroll bar of 16,
  scrolled to its end: the scroll offset is 1312 - (800 - 16) = 528.
\<close>

definition wide_page_browser :: browser where
  "wide_page_browser =
     desktop_browser\<lparr>window_pageYOffset := 528, documentElement_scrollHeight := 1312\<rparr>"

text \<open>A page three pixels taller than the window, scrolled down by one pixel.\<close>

definition barely_scrolled_browser :: browser where
  "barely_scrolled_browser =
     desktop_browser\<lparr>window_pageYOffset := 1, documentElement_scrollHeight := 803\<rparr>"

text \<open>Overrides of a caller who states that the visit has no referrer.\<close>

definition direct_visit :: UserTrackingData where
  "direct_visit =
     no_overrides\<lparr>referrer := Some [], currentUrl := Some (str ''https://landing.example/promo'')\<rparr>"

text \<open>A payload, three endpoints, and servers that answer or do not.\<close>

definition example_payload :: Payload where
  "example_payload =
     \<lparr>payload_trackingData = formatTrackingData desktop_browser no_overrides,
      payload_events = []\<rparr>"

definition ok_response :: response where
  "ok_response = \<lparr>response_status = 200, response_body = JsonValue None\<rparr>"

definition server_error :: response where
  "server_error = \<lparr>response_status = 500, response_body = NotJson\<rparr>"

definition three_urls :: "jsstring list" where
  "three_urls = [str ''/api/tracking'', str ''/api/backup'', str ''/api/analytics'']"

definition second_unreachable :: "nat \<Rightarrow> jsstring \<Rightarrow> Payload \<Rightarrow> response settled" where
  "second_unreachable index url payload =
     (if index = 1 then Rejected NetworkError else Fulfilled ok_response)"

definition failing_server :: "nat \<Rightarrow> jsstring \<Rightarrow> Payload \<Rightarrow> response settled" where
  "failing_server index url payload = Fulfilled server_error"

text \<open>
  Stores: an empty one with room for everything, one that cannot be accessed, one that
  is full, and one whose text is not JSON.
\<close>

definition empty_storage :: localStorage where
  "empty_storage =
     \<lparr>storage_accessible = True, storage_accepts = (\<lambda>records. True), storage_item = None\<rparr>"

definition blocked_storage :: localStorage where
  "blocked_storage = empty_storage\<lparr>storage_accessible := False\<rparr>"

definition full_storage :: localStorage where
  "full_storage = empty_storage\<lparr>storage_accepts := (\<lambda>records. False)\<rparr>"

definition corrupt_storage :: localStorage where
  "corrupt_storage = empty_storage\<lparr>storage_item := Some NotJsonText\<rparr>"

text \<open>The record that a call of \<open>saveToLocalStorage\<close> pushes.\<close>

definition record_of_call :: "int \<times> UserTrackingData \<times> TrackingEvent list \<Rightarrow> StoredRecord" where
  "record_of_call call =
     (case call of (now, trackingData, events) \<Rightarrow>
        \<lparr>stored_trackingData = trackingData, stored_events = events,
         stored_timestamp = Some (num_of_int now)\<rparr>)"

text \<open>Fifty-five calls, at the times 1 to 55.\<close>

definition fifty_five_calls :: "(int \<times> UserTrackingData \<times> TrackingEvent list) list" where
  "fifty_five_calls = map (\<lambda>n. (int n, no_overrides, [])) [1..<56]"

section \<open>The priority rule of the snapshot builder\<close>

text \<open>
  The rule for one field, given which override values count as supplied: an override that
  counts is the result; without one the result is the fallback (the value inspected on the
  platform, or the static default).
\<close>

definition override_rule ::
  "('a \<Rightarrow> bool) \<Rightarrow> 'a option \<Rightarrow> 'a option \<Rightarrow> 'a option \<Rightarrow> bool" where
  "override_rule counts override fallback result =
     ((\<forall>v. override = Some v \<and> counts v \<longrightarrow> result = Some v) \<and>
      (override = None \<or> (\<exists>v. override = Some v \<and> \<not> counts v) \<longrightarrow> result = fallback))"

definition any_value :: "'a \<Rightarrow> bool" where
  "any_value v = True"

section \<open>Device classes\<close>

lemma lit_mobileWords: "w \<in> set mobileWords \<Longrightarrow> lit w p \<noteq> None \<Longrightarrow> mobilePattern p"
  unfolding mobilePattern_def list_ex_iff by blast

text \<open>
  Each alternative of the tablet pattern starts with an alternative of the mobile pattern,
  so a match of the first is a match of the second at the same index.
\<close>

lemma tabletPattern_mobilePattern: "tabletPattern p \<Longrightarrow> mobilePattern p"
proof -
  assume t: "tabletPattern p"
  have ipad: "str ''iPad'' \<in> set mobileWords" and android: "str ''Android'' \<in> set mobileWords"
    by (simp_all add: mobileWords_def)
  from t consider "lit (str ''iPad'') p \<noteq> None" | "lit (str ''Android'') p \<noteq> None"
    unfolding tabletPattern_def by (auto split: option.splits)
  then show ?thesis
  proof cases
    case 1 then show ?thesis using ipad by (rule lit_mobileWords[rotated])
  next
    case 2 then show ?thesis using android by (rule lit_mobileWords[rotated])
  qed
qed

lemma searchFrom_mono:
  assumes "\<And>q. m q \<Longrightarrow> m' q"
  shows "searchFrom m (prev, s) \<Longrightarrow> searchFrom m' (prev, s)"
  by (induction s arbitrary: prev) (auto intro: assms)

lemma tablet_test_mobile_test:
  "regexTest tabletPattern ua \<Longrightarrow> regexTest mobilePattern ua"
  unfolding regexTest_def by (rule searchFrom_mono[OF tabletPattern_mobilePattern])

lemmas matcher_defs = regexTest_def mobilePattern_def tabletPattern_def mobileWords_def
  str_def canonicalize_def isWordChar_def isLineTerminator_def boundedWord_def wordBoundary_def

lemma android_phone_tablet: "regexTest tabletPattern android_phone_ua"
  by (simp add: android_phone_ua_def matcher_defs)

lemma android_phone_mobile: "regexTest mobilePattern android_phone_ua"
  by (simp add: android_phone_ua_def matcher_defs)

lemma ipad_tablet: "regexTest tabletPattern ipad_ua"
  by (simp add: ipad_ua_def matcher_defs)

text \<open>
  C1, as the code has it: for every user agent that the tablet pattern matches,
  \<open>detectDeviceType\<close> returns \<open>isTablet = true\<close> and \<open>isDesktop = false\<close>, and
  \<open>isMobile = true\<close> as well. The three flags are computed side by side, not in a cascade,
  and every tablet match is a mobile match.
\<close>

theorem detectDeviceType_tablet:
  assumes "regexTest tabletPattern ua"
  shows "DeviceType.isTablet (detectDeviceType touch ua) \<and>
         DeviceType.isMobile (detectDeviceType touch ua) \<and>
         \<not> DeviceType.isDesktop (detectDeviceType touch ua)"
  using assms tablet_test_mobile_test[OF assms] by (simp add: detectDeviceType_def)

theorem detectDeviceType_tablet_witness:
  "regexTest tabletPattern ipad_ua \<and>
   DeviceType.isTablet (detectDeviceType True ipad_ua) \<and>
   DeviceType.isMobile (detectDeviceType True ipad_ua) \<and>
   \<not> DeviceType.isDesktop (detectDeviceType True ipad_ua)"
  using detectDeviceType_tablet[OF ipad_tablet, of True] ipad_tablet by simp

text \<open>
  C1 as the specification states it fails: the user agent of an Android phone matches the
  tablet pattern, and it is reported mobile too.
\<close>

theorem detectDeviceType_tablet_also_mobile:
  "regexTest tabletPattern android_phone_ua \<and>
   \<not> (DeviceType.isTablet (detectDeviceType False android_phone_ua) \<and>
      \<not> DeviceType.isMobile (detectDeviceType False android_phone_ua) \<and>
      \<not> DeviceType.isDesktop (detectDeviceType False android_phone_ua))"
  using android_phone_tablet android_phone_mobile by (simp add: detectDeviceType_def)




section \<open>Scroll depth\<close>

lemma round_half_even_le: "y \<le> of_int n \<Longrightarrow> round_half_even y \<le> n"
proof -
  assume a: "y \<le> of_int n"
  show ?thesis
  proof (cases "y = of_int n")
    case True
    then show ?thesis by (simp add: round_half_even_def)
  next
    case False
    with a have "y < of_int n" by simp
    then have "\<lfloor>y\<rfloor> < n" by (simp add: floor_less_iff)
    then show ?thesis by (simp add: round_half_even_def Let_def)
  qed
qed

lemma round_half_even_ge: "of_int n \<le> y \<Longrightarrow> n \<le> round_half_even y"
proof -
  assume "of_int n \<le> y"
  then have "n \<le> \<lfloor>y\<rfloor>" by (simp add: le_floor_iff)
  then show ?thesis by (simp add: round_half_even_def Let_def)
qed

lemma round_double_not_NaN: "round_double x \<noteq> NaN"
  by (simp add: round_double_def Let_def)

text \<open>The rounding of a positive real whose binade is known.\<close>

lemma round_double_pos:
  assumes "0 < x" and "2 powr of_int e \<le> x" and "x < 2 powr of_int (e + 1)" and "- 1022 \<le> e"
  shows "round_double x =
           (let ulp = 2 powr of_int (e - 52);
                r = of_int (round_half_even (x / ulp)) * ulp
            in if 2 powr 1024 \<le> r then PosInfinity else Num r)"
proof -
  have "\<lfloor>log 2 x\<rfloor> = e"
    using assms by (simp add: floor_log_eq_powr_iff)
  then have "max \<lfloor>log 2 \<bar>x\<bar>\<rfloor> (- 1022) = e"
    using assms(1,4) by (simp add: max_def)
  then show ?thesis
    using assms(1) unfolding round_double_def Let_def by simp
qed

text \<open>
  Rounding does not leave an interval from 0 to a natural number below \<open>2 ^ 53\<close>: such a
  number is a multiple of every \<open>ulp\<close> below it.
\<close>

lemma round_double_upto:
  fixes N :: nat
  assumes "0 \<le> x" and "x \<le> real N" and "N < 2 ^ 53"
  shows "\<exists>r. round_double x = Num r \<and> 0 \<le> r \<and> r \<le> real N"
proof (cases "x = 0")
  case True
  then show ?thesis by (simp add: round_double_def)
next
  case False
  with assms have x: "0 < x" by simp
  define e where "e = max \<lfloor>log 2 \<bar>x\<bar>\<rfloor> (- 1022)"
  define k where "k = nat (52 - e)"
  define ulp :: real where "ulp = 2 powr of_int (e - 52)"
  define m where "m = round_half_even (\<bar>x\<bar> / ulp)"
  have N: "real N < 2 ^ 53"
    using assms(3) by simp
  then have "x < 2 powr of_int 53"
    using assms(2) by simp
  then have "log 2 x < of_int 53"
    using x by (simp only: log_less_iff[of 2 x, simplified] x)
  then have "\<lfloor>log 2 x\<rfloor> < 53"
    by (simp add: floor_less_iff)
  then have e: "e \<le> 52"
    using x by (simp add: e_def)
  have "(2::real) powr real_of_int (e - 52) =
      (if 0 \<le> e - 52 then 2 ^ nat (e - 52) else inverse (2 ^ nat (- (e - 52))))"
    by (rule powr_real_of_int) simp
  then have ulp: "ulp = inverse (2 ^ k)"
    unfolding ulp_def k_def using e by (cases "e = 52") simp_all
  have ulp0: "0 < ulp"
    by (simp add: ulp_def)
  have "\<bar>x\<bar> / ulp = x * 2 ^ k"
    using x by (simp add: ulp divide_inverse)
  also have "\<dots> \<le> real N * 2 ^ k"
    using assms(2) by (rule mult_right_mono) simp
  also have "\<dots> = of_int (int (N * 2 ^ k))"
    by simp
  finally have "m \<le> int (N * 2 ^ k)"
    unfolding m_def by (rule round_half_even_le)
  then have "real_of_int m \<le> real_of_int (int (N * 2 ^ k))"
    by (simp only: of_int_le_iff)
  then have "real_of_int m \<le> real N * 2 ^ k"
    by simp
  then have "real_of_int m * ulp \<le> real N * 2 ^ k * ulp"
    using ulp0 by (intro mult_right_mono) simp_all
  moreover have "real N * 2 ^ k * ulp = real N"
    by (simp add: ulp)
  ultimately have up: "real_of_int m * ulp \<le> real N"
    by simp
  have "of_int 0 \<le> \<bar>x\<bar> / ulp"
    using ulp0 by simp
  then have "0 \<le> m"
    unfolding m_def by (rule round_half_even_ge)
  then have lo: "0 \<le> real_of_int m * ulp"
    using ulp0 by simp
  have "(2::real) ^ 53 \<le> 2 ^ 1024"
    by (rule power_increasing) simp_all
  with N up have "real_of_int m * ulp < 2 ^ 1024"
    by linarith
  then have no: "\<not> 2 powr 1024 \<le> real_of_int m * ulp"
    by simp
  have "round_double x = Num (real_of_int m * ulp)"
    unfolding round_double_def Let_def e_def[symmetric] ulp_def[symmetric] m_def[symmetric]
    using x no by simp
  with lo up show ?thesis by blast
qed

lemma js_mul_100_not_NaN: "a \<noteq> NaN \<Longrightarrow> js_mul a (Num 100) \<noteq> NaN"
  by (cases a) (simp_all add: round_double_not_NaN)

lemma round_double_33_32: "round_double (33 / 32) = Num (33 / 32)"
  by (subst round_double_pos[where e = 0])
    (simp_all add: powr_neg_numeral round_half_even_def Let_def)

lemma round_double_825_8: "round_double (33 / 32 * 100) = Num (825 / 8)"
  by (subst round_double_pos[where e = 6])
    (simp_all add: powr_neg_numeral round_half_even_def Let_def)

lemma round_double_third: "round_double (1 / 3) = Num (6004799503160661 / 2 ^ 54)"
  by (subst round_double_pos[where e = "- 2"])
    (simp_all add: powr_neg_numeral round_half_even_def Let_def)

lemma round_double_third_100:
  "round_double (6004799503160661 / 2 ^ 54 * 100) = Num (4691249611844266 / 2 ^ 47)"
  by (subst round_double_pos[where e = 5])
    (simp_all add: powr_neg_numeral round_half_even_def Let_def)

text \<open>
  One pixel down a page that is three pixels taller than the window: the quotient and the
  product are rounded one after the other, and the result is the double below \<open>100 / 3\<close>
  that JavaScript prints as \<open>33.33333333333333\<close>, not the double nearest to \<open>100 / 3\<close>.
\<close>

lemma calculateScrollDepth_barely_scrolled:
  "calculateScrollDepth barely_scrolled_browser = Num (4691249611844266 / 2 ^ 47)"
proof -
  have "calculateScrollDepth barely_scrolled_browser =
          js_mul (round_double (1 / 3)) (Num 100)"
    by (simp add: calculateScrollDepth_def barely_scrolled_browser_def desktop_browser_def
        num_of_int_def)
  also have "\<dots> = round_double (6004799503160661 / 2 ^ 54 * 100)"
    by (simp only: round_double_third js_mul.simps)
  finally show ?thesis
    by (simp only: round_double_third_100)
qed

text \<open>
  C2, as the code has it: when the page is taller than the window, \<open>calculateScrollDepth\<close>
  returns \<open>scrollTop / (scrollHeight - viewportHeight) * 100\<close> in double arithmetic, the
  quotient rounded and then the product, and applies no clamp. The result is never NaN,
  and it is a finite number from 0 to 100 whenever the scroll offset is from 0 to
  \<open>scrollHeight - viewportHeight\<close>.
\<close>

theorem calculateScrollDepth_unclamped:
  assumes "window_innerHeight env < documentElement_scrollHeight env"
  shows "let scrollTop = (if window_pageYOffset env \<noteq> 0 then window_pageYOffset env
                          else documentElement_scrollTop env);
             docHeight = real_of_int (documentElement_scrollHeight env - window_innerHeight env)
         in calculateScrollDepth env = js_mul (round_double (scrollTop / docHeight)) (Num 100) \<and>
            calculateScrollDepth env \<noteq> NaN \<and>
            (0 \<le> scrollTop \<and> scrollTop \<le> docHeight \<longrightarrow>
               (\<exists>r. calculateScrollDepth env = Num r \<and> 0 \<le> r \<and> r \<le> 100))"
proof -
  define s where "s = (if window_pageYOffset env \<noteq> 0 then window_pageYOffset env
                       else documentElement_scrollTop env)"
  define d where "d = real_of_int (documentElement_scrollHeight env - window_innerHeight env)"
  have d: "0 < d" using assms by (simp add: d_def)
  have eq: "calculateScrollDepth env = js_mul (round_double (s / d)) (Num 100)"
    using d by (simp add: calculateScrollDepth_def Let_def num_of_int_def s_def d_def)
  have nan: "calculateScrollDepth env \<noteq> NaN"
    unfolding eq by (rule js_mul_100_not_NaN) (rule round_double_not_NaN)
  have range: "\<exists>r. calculateScrollDepth env = Num r \<and> 0 \<le> r \<and> r \<le> 100"
    if "0 \<le> s" and "s \<le> d"
  proof -
    have "0 \<le> s / d" and "s / d \<le> real 1"
      using that d by simp_all
    then obtain a where a: "round_double (s / d) = Num a" "0 \<le> a" "a \<le> 1"
      using round_double_upto[of "s / d" 1] by auto
    then have "0 \<le> a * 100" and "a * 100 \<le> real 100"
      by simp_all
    then obtain b where b: "round_double (a * 100) = Num b" "0 \<le> b" "b \<le> 100"
      using round_double_upto[of "a * 100" 100] by auto
    show ?thesis
      unfolding eq using a(1) b by simp
  qed
  show ?thesis
    unfolding Let_def s_def[symmetric] d_def[symmetric]
    using eq nan range by blast
qed

theorem calculateScrollDepth_unclamped_witness:
  "window_innerHeight barely_scrolled_browser <
     documentElement_scrollHeight barely_scrolled_browser \<and>
   (0 :: real) \<le> 1 \<and> (1 :: real) \<le> real_of_int (803 - 800) \<and>
   calculateScrollDepth barely_scrolled_browser \<noteq> NaN \<and>
   (\<exists>r. calculateScrollDepth barely_scrolled_browser = Num r \<and> 0 \<le> r \<and> r \<le> 100)"
proof -
  have v: "window_pageYOffset barely_scrolled_browser = 1"
    "documentElement_scrollHeight barely_scrolled_browser = 803"
    "window_innerHeight barely_scrolled_browser = 800"
    by (simp_all add: barely_scrolled_browser_def desktop_browser_def)
  have h: "window_innerHeight barely_scrolled_browser <
      documentElement_scrollHeight barely_scrolled_browser"
    by (simp add: v)
  have "calculateScrollDepth barely_scrolled_browser \<noteq> NaN \<and>
      ((0 :: real) \<le> 1 \<and> (1 :: real) \<le> real_of_int (803 - 800) \<longrightarrow>
         (\<exists>r. calculateScrollDepth barely_scrolled_browser = Num r \<and> 0 \<le> r \<and> r \<le> 100))"
    using calculateScrollDepth_unclamped[OF h, unfolded Let_def, THEN conjunct2]
    by (simp add: v)
  then show ?thesis
    using h by simp
qed

text \<open>
  C2 as the specification states it fails twice: on a page as tall as the window the
  result is NaN, not 0; and at the end of a page with a horizontal scroll bar it is
  103.125.
\<close>

theorem calculateScrollDepth_NaN_and_above_100:
  "documentElement_scrollHeight desktop_browser \<le> window_innerHeight desktop_browser \<and>
   calculateScrollDepth desktop_browser = NaN \<and>
   calculateScrollDepth desktop_browser \<noteq> Num 0 \<and>
   calculateScrollDepth wide_page_browser = Num (825 / 8) \<and> (100 :: real) < 825 / 8"
proof -
  have "calculateScrollDepth wide_page_browser = js_mul (round_double (33 / 32)) (Num 100)"
    by (simp add: calculateScrollDepth_def wide_page_browser_def desktop_browser_def
        num_of_int_def)
  also have "\<dots> = Num (825 / 8)"
    by (simp only: round_double_33_32 js_mul.simps round_double_825_8)
  finally have w: "calculateScrollDepth wide_page_browser = Num (825 / 8)" .
  have n: "calculateScrollDepth desktop_browser = NaN"
    by (simp add: calculateScrollDepth_def desktop_browser_def num_of_int_def)
  have h: "documentElement_scrollHeight desktop_browser \<le> window_innerHeight desktop_browser"
    by (simp add: desktop_browser_def)
  show ?thesis
    using w n h by simp
qed

section \<open>The snapshot builder\<close>

lemma js_or_Some: "\<exists>v. js_or truthy a (Some b) = Some v"
  by (simp add: js_or_def split: option.splits)

text \<open>
  C10: for every browser and every overrides, the snapshot of \<open>formatTrackingData\<close> passes
  \<open>validateTrackingData\<close>: its \<open>userAgent\<close>, \<open>sessionId\<close>, \<open>timestamp\<close> and \<open>currentUrl\<close>
  are defined.
\<close>

theorem validateTrackingData_formatTrackingData:
  "validateTrackingData (formatTrackingData env data) = True \<and>
   (\<exists>v. userAgent (formatTrackingData env data) = Some v) \<and>
   (\<exists>v. sessionId (formatTrackingData env data) = Some v) \<and>
   (\<exists>v. timestamp (formatTrackingData env data) = Some v) \<and>
   (\<exists>v. currentUrl (formatTrackingData env data) = Some v)"
  by (simp add: validateTrackingData_def requiredFields_def formatTrackingData_def js_or_Some)

text \<open>
  C9: \<open>getIPAddress\<close> never rejects; it resolves to \<open>undefined\<close> when the request rejects
  (whatever the error, a timeout included) and when the body of the response is not JSON.
  \<open>formatTrackingData\<close> does not look at the outcome of the lookup, and the \<open>ipAddress\<close> of
  its snapshot is the one the caller supplied, or absent.
\<close>

theorem getIPAddress_undefined_on_failure:
  "getIPAddress (env\<lparr>fetch_ipify := Rejected e\<rparr>) = Fulfilled None \<and>
   getIPAddress (env\<lparr>fetch_ipify := Fulfilled (r\<lparr>response_body := NotJson\<rparr>)\<rparr>) = Fulfilled None \<and>
   (\<exists>ip. getIPAddress env = Fulfilled ip) \<and>
   formatTrackingData (env\<lparr>fetch_ipify := lookup\<rparr>) data = formatTrackingData env data \<and>
   ipAddress (formatTrackingData env data) = ipAddress data"
  by (simp add: getIPAddress_def getIPAddress_try_def formatTrackingData_def
      getConnectionInfo_def getPageLoadTime_def
      split: settled.splits json_body.splits sum.splits)

lemma override_rule_js_or: "override_rule truthy a b (js_or truthy a b)"
  by (auto simp add: override_rule_def js_or_def)

lemma override_rule_nullish: "override_rule any_value a b (nullish a b)"
  by (auto simp add: override_rule_def nullish_def any_value_def)

lemma override_rule_same: "override_rule any_value a None a"
  by (cases a) (simp_all add: override_rule_def any_value_def)

text \<open>
  C5, as the code has it: for every overrides and every field other than the four
  connection fields, the priority rule holds with these overrides counting as supplied:
  for a field written with \<open>??\<close> (\<open>cookieEnabled\<close>, \<open>doNotTrack\<close>, \<open>isMobile\<close>, \<open>isTablet\<close>,
  \<open>isDesktop\<close>, \<open>touchSupport\<close>) and for \<open>ipAddress\<close>, any value; for a field written with
  \<open>||\<close>, a truthy value (a non-empty string, a number other than 0 and NaN). An override
  that counts is never replaced; an override that is absent or falsy gives way to the
  value inspected on the platform, or to the static default where there is none.
\<close>

theorem formatTrackingData_priority:
  "override_rule truthy_str (userAgent data) (Some (navigator_userAgent env))
     (userAgent (formatTrackingData env data)) \<and>
   override_rule truthy_str (language data) (Some (navigator_language env))
     (language (formatTrackingData env data)) \<and>
   override_rule truthy_str (platform data) (Some (navigator_platform env))
     (platform (formatTrackingData env data)) \<and>
   override_rule any_value (cookieEnabled data) (Some (navigator_cookieEnabled env))
     (cookieEnabled (formatTrackingData env data)) \<and>
   override_rule any_value (doNotTrack data) (navigator_doNotTrack env)
     (doNotTrack (formatTrackingData env data)) \<and>
   override_rule truthy_num (screenWidth data) (Some (num_of_int (screen_width env)))
     (screenWidth (formatTrackingData env data)) \<and>
   override_rule truthy_num (screenHeight data) (Some (num_of_int (screen_height env)))
     (screenHeight (formatTrackingData env data)) \<and>
   override_rule truthy_num (viewportWidth data) (Some (num_of_int (window_innerWidth env)))
     (viewportWidth (formatTrackingData env data)) \<and>
   override_rule truthy_num (viewportHeight data) (Some (num_of_int (window_innerHeight env)))
     (viewportHeight (formatTrackingData env data)) \<and>
   override_rule truthy_num (colorDepth data) (Some (num_of_int (screen_colorDepth env)))
     (colorDepth (formatTrackingData env data)) \<and>
   override_rule truthy_num (pixelRatio data) (Some (Num (window_devicePixelRatio env)))
     (pixelRatio (formatTrackingData env data)) \<and>
   override_rule any_value (ipAddress data) None (ipAddress (formatTrackingData env data)) \<and>
   override_rule truthy_str (timezone data) (Some (intl_timeZone env))
     (timezone (formatTrackingData env data)) \<and>
   override_rule truthy_num (sessionStartTime data)
     (Some (num_of_int (date_now env ForSessionStartTime)))
     (sessionStartTime (formatTrackingData env data)) \<and>
   override_rule truthy_num (totalActiveTime data) (Some (Num 0))
     (totalActiveTime (formatTrackingData env data)) \<and>
   override_rule truthy_num (lastActivityTime data)
     (Some (num_of_int (date_now env ForLastActivityTime)))
     (lastActivityTime (formatTrackingData env data)) \<and>
   override_rule truthy_num (pageViews data) (Some (Num 1))
     (pageViews (formatTrackingData env data)) \<and>
   override_rule truthy_num (clicks data) (Some (Num 0))
     (clicks (formatTrackingData env data)) \<and>
   override_rule truthy_num (scrollDepth data) (Some (Num 0))
     (scrollDepth (formatTrackingData env data)) \<and>
   override_rule truthy_num (mouseMovements data) (Some (Num 0))
     (mouseMovements (formatTrackingData env data)) \<and>
   override_rule truthy_str (referrer data) (Some (document_referrer env))
     (referrer (formatTrackingData env data)) \<and>
   override_rule truthy_str (currentUrl data) (Some (location_href env))
     (currentUrl (formatTrackingData env data)) \<and>
   override_rule truthy_num (pageLoadTime data) (getPageLoadTime env)
     (pageLoadTime (formatTrackingData env data)) \<and>
   override_rule any_value (isMobile data)
     (Some (DeviceType.isMobile
              (detectDeviceType (window_ontouchstart env) (navigator_userAgent env))))
     (isMobile (formatTrackingData env data)) \<and>
   override_rule any_value (isTablet data)
     (Some (DeviceType.isTablet
              (detectDeviceType (window_ontouchstart env) (navigator_userAgent env))))
     (isTablet (formatTrackingData env data)) \<and>
   override_rule any_value (isDesktop data)
     (Some (DeviceType.isDesktop
              (detectDeviceType (window_ontouchstart env) (navigator_userAgent env))))
     (isDesktop (formatTrackingData env data)) \<and>
   override_rule any_value (touchSupport data) (Some (window_ontouchstart env))
     (touchSupport (formatTrackingData env data)) \<and>
   override_rule truthy_str (sessionId data)
     (Some (generateSessionId (date_now env ForSessionId) (math_random_base36 env)))
     (sessionId (formatTrackingData env data)) \<and>
   override_rule truthy_num (timestamp data) (Some (num_of_int (date_now env ForTimestamp)))
     (timestamp (formatTrackingData env data))"
  by (simp add: formatTrackingData_def override_rule_js_or override_rule_nullish
      override_rule_same)

theorem formatTrackingData_priority_witness:
  "referrer direct_visit = Some [] \<and> \<not> truthy_str [] \<and>
   referrer (formatTrackingData desktop_browser direct_visit) =
     Some (document_referrer desktop_browser) \<and>
   currentUrl direct_visit = Some (str ''https://landing.example/promo'') \<and>
   truthy_str (str ''https://landing.example/promo'') \<and>
   currentUrl (formatTrackingData desktop_browser direct_visit) =
     Some (str ''https://landing.example/promo'') \<and>
   cookieEnabled direct_visit = None \<and>
   cookieEnabled (formatTrackingData desktop_browser direct_visit) =
     Some (navigator_cookieEnabled desktop_browser)"
proof -
  have a: "referrer direct_visit = Some []" "\<not> truthy_str []"
    "currentUrl direct_visit = Some (str ''https://landing.example/promo'')"
    "truthy_str (str ''https://landing.example/promo'')"
    "cookieEnabled direct_visit = None"
    by (simp_all add: direct_visit_def no_overrides_def truthy_str_def str_def)
  note p = formatTrackingData_priority[where data = direct_visit and env = desktop_browser]
  from p have r: "override_rule truthy_str (referrer direct_visit)
      (Some (document_referrer desktop_browser))
      (referrer (formatTrackingData desktop_browser direct_visit))"
    by blast
  from p have u: "override_rule truthy_str (currentUrl direct_visit)
      (Some (location_href desktop_browser))
      (currentUrl (formatTrackingData desktop_browser direct_visit))"
    by blast
  from p have c: "override_rule any_value (cookieEnabled direct_visit)
      (Some (navigator_cookieEnabled desktop_browser))
      (cookieEnabled (formatTrackingData desktop_browser direct_visit))"
    by blast
  show ?thesis
    using r u c a unfolding override_rule_def by blast
qed

text \<open>
  C5 as the specification states it fails: the caller supplies the empty referrer of a
  direct visit, and the snapshot carries \<open>document.referrer\<close> instead.
\<close>

theorem formatTrackingData_replaces_empty_referrer:
  "referrer direct_visit = Some [] \<and>
   referrer (formatTrackingData desktop_browser direct_visit) =
     Some (str ''https://www.google.com/'') \<and>
   \<not> override_rule any_value (referrer direct_visit) (Some (document_referrer desktop_browser))
       (referrer (formatTrackingData desktop_browser direct_visit))"
  by (simp add: formatTrackingData_def direct_visit_def no_overrides_def desktop_browser_def
      override_rule_def any_value_def js_or_def truthy_str_def str_def)

section \<open>Session identifiers\<close>

text \<open>
  Two identifiers made at the same time are equal only if their random parts are. How
  likely equal random parts are is a matter of \<open>Math.random\<close> and is not modelled.
\<close>

lemma generateSessionId_same_time:
  "generateSessionId now r1 = generateSessionId now r2 \<longleftrightarrow> r1 = r2"
  by (simp add: generateSessionId_def)

section \<open>Delivery to several endpoints\<close>

text \<open>
  C4, as the code has it: for every list of endpoints and however each request settles,
  \<open>sendToMultipleEndpoints\<close> does not reject; it resolves to one entry per endpoint, in the
  order of the endpoints, and the \<open>success\<close> of an entry is true exactly when the request
  to that endpoint was fulfilled with a response. A request that rejects (network error,
  timeout) is a failure; the status of a response is not looked at, so a response that is
  not a success is reported as one, and the entry carries it.
\<close>

theorem sendToMultipleEndpoints_results:
  "\<exists>results. sendToMultipleEndpoints fetch data urls = Fulfilled results \<and>
     length results = length urls \<and>
     (\<forall>i < length urls.
        endpoint (results ! i) = urls ! i \<and>
        success (results ! i) = (\<exists>r. fetch i (urls ! i) data = Fulfilled r) \<and>
        response (results ! i) =
          (case fetch i (urls ! i) data of Fulfilled r \<Rightarrow> Some r | Rejected e \<Rightarrow> None))"
proof -
  define promises where
    "promises =
       map (\<lambda>(index, endpoint). catch_null (fetch index endpoint data)) (enumerate 0 urls)"
  define results where
    "results = map (\<lambda>(index, result).
                   \<lparr>endpoint = urls ! index,
                    success = (case result of Fulfilled value \<Rightarrow> value \<noteq> None
                                            | Rejected error \<Rightarrow> False),
                    response = (case result of Fulfilled value \<Rightarrow> value
                                             | Rejected error \<Rightarrow> None)\<rparr>)
                (enumerate 0 promises)"
  have lp: "length promises = length urls"
    by (simp add: promises_def)
  have p: "promises ! i = catch_null (fetch i (urls ! i) data)" if "i < length urls" for i
    using that by (simp add: promises_def nth_enumerate_eq)
  have r: "results ! i =
      \<lparr>endpoint = urls ! i,
       success = (case promises ! i of Fulfilled value \<Rightarrow> value \<noteq> None
                                     | Rejected error \<Rightarrow> False),
       response = (case promises ! i of Fulfilled value \<Rightarrow> value | Rejected error \<Rightarrow> None)\<rparr>"
    if "i < length urls" for i
    using that lp by (simp add: results_def nth_enumerate_eq)
  have "sendToMultipleEndpoints fetch data urls = Fulfilled results"
    by (simp add: sendToMultipleEndpoints_def Let_def results_def promises_def)
  moreover have "length results = length urls"
    by (simp add: results_def lp)
  moreover have "\<forall>i < length urls.
        endpoint (results ! i) = urls ! i \<and>
        success (results ! i) = (\<exists>r. fetch i (urls ! i) data = Fulfilled r) \<and>
        response (results ! i) =
          (case fetch i (urls ! i) data of Fulfilled r \<Rightarrow> Some r | Rejected e \<Rightarrow> None)"
    by (simp add: r p catch_null_def split: settled.splits)
  ultimately show ?thesis by blast
qed

text \<open>Three endpoints, the second of them unreachable.\<close>

theorem sendToMultipleEndpoints_results_witness:
  "\<exists>results.
     sendToMultipleEndpoints second_unreachable example_payload three_urls = Fulfilled results \<and>
     map endpoint results = three_urls \<and> map success results = [True, False, True]"
proof -
  obtain results where
    r: "sendToMultipleEndpoints second_unreachable example_payload three_urls = Fulfilled results"
    and l: "length results = length three_urls"
    and a: "\<forall>i < length three_urls.
        endpoint (results ! i) = three_urls ! i \<and>
        success (results ! i) =
          (\<exists>r. second_unreachable i (three_urls ! i) example_payload = Fulfilled r) \<and>
        response (results ! i) =
          (case second_unreachable i (three_urls ! i) example_payload of
             Fulfilled r \<Rightarrow> Some r | Rejected e \<Rightarrow> None)"
    using sendToMultipleEndpoints_results[of second_unreachable example_payload three_urls]
    by blast
  have n: "length three_urls = 3"
    by (simp add: three_urls_def)
  have e: "map endpoint results = three_urls"
    using l a by (simp add: list_eq_iff_nth_eq)
  have "map success results ! i = [True, False, True] ! i" if "i < 3" for i
  proof -
    from that consider "i = 0" | "i = 1" | "i = 2" by linarith
    then show ?thesis
      using a l n by cases (simp_all add: second_unreachable_def)
  qed
  then have s: "map success results = [True, False, True]"
    using l n by (simp add: list_eq_iff_nth_eq)
  show ?thesis by (intro exI[of _ results] conjI r e s)
qed

text \<open>
  C4 as the specification states it fails: an endpoint that answers with the status 500
  is reported with \<open>success = true\<close>.
\<close>

theorem sendToMultipleEndpoints_http_error_success:
  "sendToMultipleEndpoints failing_server example_payload [str ''/api/tracking''] =
     Fulfilled [\<lparr>endpoint = str ''/api/tracking'', success = True,
                 response = Some server_error\<rparr>] \<and>
   \<not> response_ok server_error"
  by (simp add: sendToMultipleEndpoints_def failing_server_def catch_null_def server_error_def
      response_ok_def enumerate_eq_zip)

section \<open>Failures and growth of the local store\<close>

text \<open>
  C7: \<open>saveToLocalStorage\<close>, \<open>getFromLocalStorage\<close> and \<open>clearLocalStorage\<close> never throw.
  Whatever is thrown inside save or clear, the call returns \<open>false\<close>. On a store that cannot be accessed, save and clear return \<open>false\<close> and the read returns
  the empty array; on a store that is full, save returns \<open>false\<close>; on a stored text that
  is not JSON, the read returns the empty array and save returns \<open>false\<close>. A failed call
  leaves the store as it was.
\<close>

theorem localStorage_never_throws:
  "(\<exists>b. fst (saveToLocalStorage storage now trackingData events) = Inr b) \<and>
   (\<exists>p. getFromLocalStorage storage = Inr p) \<and>
   (\<exists>b. fst (clearLocalStorage storage) = Inr b) \<and>
   (saveToLocalStorage_try storage now trackingData events = Inl e \<longrightarrow>
      saveToLocalStorage storage now trackingData events = (Inr False, storage)) \<and>
   (removeItem storage = Inl e \<longrightarrow> clearLocalStorage storage = (Inr False, storage)) \<and>
   (\<not> storage_accessible storage \<longrightarrow>
      saveToLocalStorage storage now trackingData events = (Inr False, storage) \<and>
      clearLocalStorage storage = (Inr False, storage) \<and>
      getFromLocalStorage storage = Inr (ParsedArray [])) \<and>
   ((\<forall>records. \<not> storage_accepts storage records) \<longrightarrow>
      saveToLocalStorage storage now trackingData events = (Inr False, storage)) \<and>
   (storage_item storage = Some NotJsonText \<longrightarrow>
      getFromLocalStorage storage = Inr (ParsedArray []) \<and>
      saveToLocalStorage storage now trackingData events = (Inr False, storage))"
  by (auto simp add: saveToLocalStorage_def saveToLocalStorage_try_def getFromLocalStorage_def
      clearLocalStorage_def try_catch_def getItem_def setItem_def removeItem_def
      parse_or_empty_def JSON_parse_def push_def
      split: sum.splits option.splits stored_text.splits parsed.splits)

theorem localStorage_never_throws_witness:
  "saveToLocalStorage_try blocked_storage 1730000000000 no_overrides [] = Inl SecurityError \<and>
   removeItem blocked_storage = Inl SecurityError \<and>
   \<not> storage_accessible blocked_storage \<and>
   saveToLocalStorage blocked_storage 1730000000000 no_overrides [] =
     (Inr False, blocked_storage) \<and>
   clearLocalStorage blocked_storage = (Inr False, blocked_storage) \<and>
   getFromLocalStorage blocked_storage = Inr (ParsedArray []) \<and>
   (\<forall>records. \<not> storage_accepts full_storage records) \<and>
   saveToLocalStorage full_storage 1730000000000 no_overrides [] = (Inr False, full_storage) \<and>
   storage_item corrupt_storage = Some NotJsonText \<and>
   getFromLocalStorage corrupt_storage = Inr (ParsedArray []) \<and>
   saveToLocalStorage corrupt_storage 1730000000000 no_overrides [] =
     (Inr False, corrupt_storage)"
proof -
  have b: "\<not> storage_accessible blocked_storage"
    by (simp add: blocked_storage_def empty_storage_def)
  have f: "\<forall>records. \<not> storage_accepts full_storage records"
    by (simp add: full_storage_def empty_storage_def)
  have c: "storage_item corrupt_storage = Some NotJsonText"
    by (simp add: corrupt_storage_def empty_storage_def)
  have t: "saveToLocalStorage_try blocked_storage 1730000000000 no_overrides [] = Inl SecurityError"
    "removeItem blocked_storage = Inl SecurityError"
    using b by (simp_all add: saveToLocalStorage_try_def getItem_def removeItem_def)
  show ?thesis
    using b f c t
      localStorage_never_throws[of blocked_storage 1730000000000 no_overrides "[]" SecurityError]
      localStorage_never_throws[of full_storage 1730000000000 no_overrides "[]" SecurityError]
      localStorage_never_throws[of corrupt_storage 1730000000000 no_overrides "[]" SecurityError]
    by blast
qed

lemma json_number_idem: "json_number (json_number n) = json_number n"
  by (simp add: json_number_def split: option.splits number.splits)

lemma json_data_idem: "json_data (json_data data) = json_data data"
  by (simp add: json_data_def json_number_idem)

lemma json_event_idem: "json_event (json_event event) = json_event event"
  by (simp add: json_event_def json_data_idem json_number_idem)

lemma json_record_idem: "json_record (json_record entry) = json_record entry"
  by (simp add: json_record_def json_data_idem json_number_idem json_event_idem)

lemma saveToLocalStorage_appends:
  assumes "storage_accessible s" and "\<forall>records. storage_accepts s records"
    and "parse_or_empty (storage_item s) = Inr (ParsedArray records)"
  shows "saveToLocalStorage s now trackingData events =
           (Inr True,
            s\<lparr>storage_item :=
                Some (JsonArrayText
                        (map json_record
                           (records @ [record_of_call (now, trackingData, events)])))\<rparr>)"
  using assms
  by (simp add: saveToLocalStorage_def saveToLocalStorage_try_def getItem_def setItem_def
      push_def record_of_call_def JSON_stringify_def)

text \<open>
  Starting from records that are as JSON reads them, every call adds its record, as JSON
  reads it, and nothing is dropped.
\<close>

lemma saveAll_appends:
  assumes "storage_accessible s" and "\<forall>records. storage_accepts s records"
    and "parse_or_empty (storage_item s) = Inr (ParsedArray records)"
    and "map json_record records = records"
  shows "parse_or_empty (storage_item (saveAll s calls)) =
           Inr (ParsedArray (records @ map (\<lambda>call. json_record (record_of_call call)) calls))"
  using assms
proof (induction calls arbitrary: s records)
  case Nil
  then show ?case by simp
next
  case (Cons call calls)
  obtain now trackingData events where call: "call = (now, trackingData, events)"
    by (cases call) auto
  let ?records = "records @ [json_record (record_of_call call)]"
  let ?s = "s\<lparr>storage_item := Some (JsonArrayText ?records)\<rparr>"
  have "map json_record (records @ [record_of_call call]) = ?records"
    using Cons.prems(4) by simp
  then have step: "saveToLocalStorage s now trackingData events = (Inr True, ?s)"
    using saveToLocalStorage_appends[OF Cons.prems(1-3)] call by simp
  have "parse_or_empty (storage_item (saveAll ?s calls)) =
          Inr (ParsedArray (?records @ map (\<lambda>call. json_record (record_of_call call)) calls))"
    using Cons.prems
    by (intro Cons.IH) (simp_all add: parse_or_empty_def JSON_parse_def json_record_idem)
  then show ?case
    using step call by simp
qed

lemma saveAll_accessible:
  "storage_accessible (saveAll s calls) = storage_accessible s"
proof (induction calls arbitrary: s)
  case Nil
  then show ?case by simp
next
  case (Cons call calls)
  obtain now trackingData events where call: "call = (now, trackingData, events)"
    by (cases call) auto
  have "storage_accessible (snd (saveToLocalStorage s now trackingData events)) =
          storage_accessible s"
    by (auto simp add: saveToLocalStorage_def saveToLocalStorage_try_def setItem_def
        split: sum.splits if_splits)
  then show ?case using Cons.IH call by simp
qed

lemma json_record_fifty_five:
  "map (\<lambda>call. json_record (record_of_call call)) fifty_five_calls =
     map record_of_call fifty_five_calls"
  by (simp add: fifty_five_calls_def record_of_call_def json_record_def json_data_def
      json_number_def no_overrides_def num_of_int_def)

text \<open>
  C3 on the code: the default configuration sets \<open>maxLocalStorageItems\<close> to 50, and
  \<open>saveToLocalStorage\<close> does not read it. After 55 calls on an empty store with room for
  everything, the store holds all 55 records, the oldest five included.
\<close>

theorem saveToLocalStorage_keeps_all_55:
  "maxLocalStorageItems DEFAULT_TRACKING_CONFIG = 50 \<and>
   getFromLocalStorage (saveAll empty_storage fifty_five_calls) =
     Inr (ParsedArray (map record_of_call fifty_five_calls)) \<and>
   length (map record_of_call fifty_five_calls) = 55"
proof -
  have a: "storage_accessible empty_storage" "\<forall>records. storage_accepts empty_storage records"
    "parse_or_empty (storage_item empty_storage) = Inr (ParsedArray [])"
    by (simp_all add: empty_storage_def parse_or_empty_def)
  have "parse_or_empty (storage_item (saveAll empty_storage fifty_five_calls)) =
          Inr (ParsedArray
                 ([] @ map (\<lambda>call. json_record (record_of_call call)) fifty_five_calls))"
    using a by (intro saveAll_appends) simp_all
  then have "parse_or_empty (storage_item (saveAll empty_storage fifty_five_calls)) =
          Inr (ParsedArray (map record_of_call fifty_five_calls))"
    by (simp only: json_record_fifty_five append_Nil)
  moreover have "storage_accessible (saveAll empty_storage fifty_five_calls)"
    using a(1) by (simp add: saveAll_accessible)
  ultimately have "getFromLocalStorage (saveAll empty_storage fifty_five_calls) =
     Inr (ParsedArray (map record_of_call fifty_five_calls))"
    by (simp add: getFromLocalStorage_def getItem_def try_catch_def)
  moreover have "length (map record_of_call fifty_five_calls) = 55"
    by (simp add: fifty_five_calls_def)
  moreover have "maxLocalStorageItems DEFAULT_TRACKING_CONFIG = 50"
    by (simp add: DEFAULT_TRACKING_CONFIG_def)
  ultimately show ?thesis by blast
qed

end
